theory Spec2Isabelle
  imports Main "HOL-Library.Word"
begin

section \<open>The channel of libbitcoin: data model\<close>

text \<open>
  The development embeds \<^verbatim>\<open>channel_pimpl\<close> (network/channel.hpp and its implementation
  file). A channel is driven by completion handlers that the I/O service calls; each
  handler is a function from the channel's state and the handler's arguments to the new
  state and the list of effects it performed, in program order. The effects are the calls
  the channel makes on its collaborators: the socket (\<^verbatim>\<open>async_read\<close>, \<^verbatim>\<open>async_write\<close>), the
  deadline timer, the gateway (\<^verbatim>\<open>network_->disconnect\<close>), the kernel
  (\<^verbatim>\<open>recv_message\<close>) and the logger.

  The I/O service is not part of the files at hand. Between a call of \<^verbatim>\<open>async_read\<close> and
  the call of its handler the socket fills the buffer that the read named; a handler
  therefore finds the received bytes in the channel's state, and the theorems hold for
  every content of the buffers. A read that completes without error has transferred as
  many bytes as its buffer holds, which is what the handlers assert.
\<close>

type_synonym byte = "8 word"
type_synonym data_chunk = "byte list"

text \<open>
  \<^verbatim>\<open>channel_handle\<close> is declared outside the files at hand. The source initialises it
  with 0 and increments it, so it is an integer type of some width; it is a natural number
  here, and the constructor takes the width in bits and wraps the counter.
\<close>

type_synonym channel_handle = nat

text \<open>
  \<^verbatim>\<open>boost::system::error_code\<close>, as far as the channel tells values apart: success
  (converts to false), \<^verbatim>\<open>boost::asio::error::operation_aborted\<close>, and any other error
  (converts to true), with its number.
\<close>

datatype error_code = no_error | operation_aborted | other_error nat

text \<open>
  \<^verbatim>\<open>message::header\<close> and \<^verbatim>\<open>message::version\<close> are declared in bitcoin/messages.hpp,
  outside the files at hand. The fields are those the channel reads and writes; the magic
  number and the widths are those of the wire layout.
\<close>

record header =
  magic :: "32 word"
  command :: string
  payload_length :: "32 word"
  checksum :: "32 word"

record network_address =
  services :: "64 word"
  ip_addr :: "byte list"
  port :: "16 word"

record message_version =
  version :: "32 word"
  version_services :: "64 word"
  timestamp :: "64 word"
  addr_me :: network_address
  addr_you :: network_address
  nonce :: "64 word"
  sub_version_num :: string
  start_height :: "32 word"

text \<open>
  The payload types the channel hands to the kernel. The fields of \<^verbatim>\<open>message::addr\<close>,
  \<^verbatim>\<open>message::inv\<close> and \<^verbatim>\<open>message::block\<close> are not used by the channel: they are type
  parameters.
\<close>

datatype ('a, 'i, 'b) message =
    version_msg message_version
  | verack_msg
  | addr_msg 'a
  | inv_msg 'i
  | block_msg 'b

text \<open>
  The dialect (\<^verbatim>\<open>translator_\<close>) is an abstract class declared in bitcoin/dialect.hpp; its
  member functions are parameters. A \<^verbatim>\<open>*_from_network\<close> function gets \<^verbatim>\<open>ret_errc\<close> by
  reference, initialised to false: it returns the payload and the final value of the flag.
\<close>

record ('a, 'i, 'b) dialect =
  header_from_network :: "data_chunk \<Rightarrow> header"
  verify_header :: "header \<Rightarrow> bool"
  checksum_used :: "header \<Rightarrow> bool"
  checksum_from_network :: "data_chunk \<Rightarrow> 32 word"
  verify_checksum :: "header \<Rightarrow> data_chunk \<Rightarrow> bool"
  version_from_network :: "header \<Rightarrow> data_chunk \<Rightarrow> message_version \<times> bool"
  addr_from_network :: "header \<Rightarrow> data_chunk \<Rightarrow> 'a \<times> bool"
  inv_from_network :: "header \<Rightarrow> data_chunk \<Rightarrow> 'i \<times> bool"
  block_from_network :: "header \<Rightarrow> data_chunk \<Rightarrow> 'b \<times> bool"
  to_network :: "('a, 'i, 'b) message \<Rightarrow> data_chunk"

text \<open>The kernel's answer to \<^verbatim>\<open>recv_message(channel_id_, payload)\<close>.\<close>

type_synonym ('a, 'i, 'b) kernel = "channel_handle \<Rightarrow> ('a, 'i, 'b) message \<Rightarrow> bool"

subsection \<open>Effects\<close>

datatype log_level = debug | info | warning

datatype log_item = Str string | Num nat

datatype buffer = header_buffer | checksum_buffer | payload_buffer

text \<open>The member function bound as the completion handler of an asynchronous call.\<close>

datatype callback =
    on_read_header
  | on_read_checksum header
  | on_read_payload header
  | on_timeout
  | on_send

datatype ('a, 'i, 'b) action =
    log_line log_level "log_item list"
  | disconnect channel_handle
  | async_read buffer nat callback
  | async_write data_chunk callback
  | timer_create
  | timer_cancel
  | timer_expires_from_now nat
  | timer_async_wait callback
  | recv_message channel_handle "('a, 'i, 'b) message"

text \<open>The members of \<^verbatim>\<open>channel_pimpl\<close> that the handlers read or write.\<close>

record channel =
  channel_id :: channel_handle
  inbound_header :: data_chunk
  inbound_checksum :: data_chunk
  inbound_payload :: data_chunk

text \<open>
  \<^verbatim>\<open>BITCOIN_ASSERT\<close> is declared in bitcoin/util/assert.hpp, outside the files at hand.
  Whether the build checks assertions is a parameter: a checked assertion that fails ends
  the process.
\<close>

datatype fault = assertion_failed

definition bitcoin_assert :: "bool \<Rightarrow> bool \<Rightarrow> bool" where
  "bitcoin_assert checked cond = (\<not> checked \<or> cond)"

definition header_chunk_size :: nat where
  "header_chunk_size = 20"

definition header_checksum_size :: nat where
  "header_checksum_size = 4"

text \<open>\<^verbatim>\<open>seconds(0) + minutes(90)\<close>, in seconds.\<close>

definition disconnect_timeout :: nat where
  "disconnect_timeout = 0 + 90 * 60"

text \<open>\<^verbatim>\<open>std::vector::resize\<close>: cut, or filled up with zero bytes.\<close>

definition resize :: "nat \<Rightarrow> data_chunk \<Rightarrow> data_chunk" where
  "resize n xs = take n xs @ replicate (n - length xs) 0"

section \<open>The channel's member functions\<close>

definition destroy_self :: "channel \<Rightarrow> ('a, 'i, 'b) action list" where
  "destroy_self c = [disconnect (channel_id c)]"

definition problems_check :: "channel \<Rightarrow> error_code \<Rightarrow> bool \<times> ('a, 'i, 'b) action list" where
  "problems_check c ec =
     (if ec = operation_aborted then (True, [])
      else if ec \<noteq> no_error then (True, destroy_self c)
      else (False, []))"

definition handle_timeout :: "channel \<Rightarrow> error_code \<Rightarrow> ('a, 'i, 'b) action list" where
  "handle_timeout c ec =
     (case problems_check c ec of
        (True, acts) \<Rightarrow> acts
      | (False, acts) \<Rightarrow>
          acts @ [log_line info [Str ''Forcing disconnect due to timeout.'']] @ destroy_self c)"

definition reset_timeout :: "('a, 'i, 'b) action list" where
  "reset_timeout =
     [timer_cancel, timer_expires_from_now disconnect_timeout, timer_async_wait on_timeout]"

definition read_header :: "('a, 'i, 'b) action list" where
  "read_header = [async_read header_buffer header_chunk_size on_read_header]"

definition read_checksum :: "header \<Rightarrow> ('a, 'i, 'b) action list" where
  "read_checksum header_msg =
     [async_read checksum_buffer header_checksum_size (on_read_checksum header_msg)]"

text \<open>
  \<^verbatim>\<open>buffer(inbound_payload_, n)\<close> is the first \<open>n\<close> bytes of the vector, or all of it when
  it is shorter: the read is for \<open>min (size) n\<close> bytes of the vector as it is when the
  read is issued, after the resize.
\<close>

definition read_payload :: "channel \<Rightarrow> header \<Rightarrow> channel \<times> ('a, 'i, 'b) action list" where
  "read_payload c header_msg =
     (let c' = c\<lparr>inbound_payload :=
                  resize (unat (payload_length header_msg)) (inbound_payload c)\<rparr>
      in (c', [async_read payload_buffer
                 (min (length (inbound_payload c')) (unat (payload_length header_msg)))
                 (on_read_payload header_msg)]))"

definition handle_read_header ::
  "bool \<Rightarrow> ('a, 'i, 'b) dialect \<Rightarrow> channel \<Rightarrow> error_code \<Rightarrow> nat \<Rightarrow>
     fault + channel \<times> ('a, 'i, 'b) action list" where
  "handle_read_header checked translator c ec bytes_transferred =
     (case problems_check c ec of
        (True, acts) \<Rightarrow> Inr (c, acts)
      | (False, acts) \<Rightarrow>
          if \<not> bitcoin_assert checked (bytes_transferred = header_chunk_size)
          then Inl assertion_failed
          else
            let header_stream = inbound_header c in
            if \<not> bitcoin_assert checked (length header_stream = header_chunk_size)
            then Inl assertion_failed
            else
              let header_msg = header_from_network translator header_stream in
              if \<not> verify_header translator header_msg
              then Inr (c, acts @ [log_line debug [Str ''Bad header received.'']]
                            @ destroy_self c)
              else
                let logged = [log_line info
                      [Str ''r: '', Str (command header_msg), Str '' ('',
                       Num (unat (payload_length header_msg)), Str '' bytes)'']];
                    (c', issued) =
                      (if checksum_used translator header_msg
                       then (c, read_checksum header_msg)
                       else read_payload c header_msg)
                in Inr (c', acts @ logged @ issued @ reset_timeout))"

definition handle_read_checksum ::
  "bool \<Rightarrow> ('a, 'i, 'b) dialect \<Rightarrow> channel \<Rightarrow> header \<Rightarrow> error_code \<Rightarrow> nat \<Rightarrow>
     fault + channel \<times> ('a, 'i, 'b) action list" where
  "handle_read_checksum checked translator c header_msg ec bytes_transferred =
     (case problems_check c ec of
        (True, acts) \<Rightarrow> Inr (c, acts)
      | (False, acts) \<Rightarrow>
          if \<not> bitcoin_assert checked (bytes_transferred = header_checksum_size)
          then Inl assertion_failed
          else
            let checksum_stream = inbound_checksum c in
            if \<not> bitcoin_assert checked (length checksum_stream = header_checksum_size)
            then Inl assertion_failed
            else
              let header_msg' = header_msg\<lparr>checksum :=
                     checksum_from_network translator checksum_stream\<rparr>;
                  (c', issued) = read_payload c header_msg'
              in Inr (c', acts @ issued @ reset_timeout))"

text \<open>
  \<^verbatim>\<open>transport_payload\<close>: the kernel is not called when \<^verbatim>\<open>ret_errc\<close> is set
  (\<^verbatim>\<open>||\<close> evaluates its right operand only when the left one is false).
\<close>

definition transport_payload ::
  "('a, 'i, 'b) kernel \<Rightarrow> channel \<Rightarrow> ('a, 'i, 'b) message \<Rightarrow> bool \<Rightarrow>
     bool \<times> ('a, 'i, 'b) action list" where
  "transport_payload sink c payload ret_errc =
     (if ret_errc then (False, destroy_self c)
      else if \<not> sink (channel_id c) payload
      then (False, [recv_message (channel_id c) payload] @ destroy_self c)
      else (True, [recv_message (channel_id c) payload]))"

definition handle_read_payload ::
  "bool \<Rightarrow> ('a, 'i, 'b) dialect \<Rightarrow> ('a, 'i, 'b) kernel \<Rightarrow> channel \<Rightarrow> header \<Rightarrow>
     error_code \<Rightarrow> nat \<Rightarrow> fault + channel \<times> ('a, 'i, 'b) action list" where
  "handle_read_payload checked translator sink c header_msg ec bytes_transferred =
     (case problems_check c ec of
        (True, acts) \<Rightarrow> Inr (c, acts)
      | (False, acts) \<Rightarrow>
          if \<not> bitcoin_assert checked (bytes_transferred = unat (payload_length header_msg))
          then Inl assertion_failed
          else
            let payload_stream = inbound_payload c in
            if \<not> bitcoin_assert checked
                   (length payload_stream = unat (payload_length header_msg))
            then Inl assertion_failed
            else if \<not> verify_checksum translator header_msg payload_stream
            then Inr (c, acts @ [log_line warning [Str ''Bad checksum!'']] @ destroy_self c)
            else
              let next_cycle = (\<lambda>sent. Inr (c, acts @ sent @ read_header @ reset_timeout)) in
              if command header_msg = ''version'' then
                (let (payload, ret_errc) =
                       version_from_network translator header_msg payload_stream
                 in case transport_payload sink c (version_msg payload) ret_errc of
                      (False, sent) \<Rightarrow> Inr (c, acts @ sent)
                    | (True, sent) \<Rightarrow> next_cycle sent)
              else if command header_msg = ''verack'' then
                (case transport_payload sink c verack_msg False of
                   (False, sent) \<Rightarrow> Inr (c, acts @ sent)
                 | (True, sent) \<Rightarrow> next_cycle sent)
              else if command header_msg = ''addr'' then
                (let (payload, ret_errc) =
                       addr_from_network translator header_msg payload_stream
                 in case transport_payload sink c (addr_msg payload) ret_errc of
                      (False, sent) \<Rightarrow> Inr (c, acts @ sent)
                    | (True, sent) \<Rightarrow> next_cycle sent)
              else if command header_msg = ''inv'' then
                (let (payload, ret_errc) =
                       inv_from_network translator header_msg payload_stream
                 in case transport_payload sink c (inv_msg payload) ret_errc of
                      (False, sent) \<Rightarrow> Inr (c, acts @ sent)
                    | (True, sent) \<Rightarrow> next_cycle sent)
              else if command header_msg = ''block'' then
                (let (payload, ret_errc) =
                       block_from_network translator header_msg payload_stream
                 in case transport_payload sink c (block_msg payload) ret_errc of
                      (False, sent) \<Rightarrow> Inr (c, acts @ sent)
                    | (True, sent) \<Rightarrow> next_cycle sent)
              else next_cycle [])"

definition handle_send :: "channel \<Rightarrow> error_code \<Rightarrow> ('a, 'i, 'b) action list" where
  "handle_send c ec = snd (problems_check c ec)"

definition generic_send ::
  "('a, 'i, 'b) dialect \<Rightarrow> ('a, 'i, 'b) message \<Rightarrow> ('a, 'i, 'b) action list" where
  "generic_send translator message_packet =
     [async_write (to_network translator message_packet) on_send]"

definition send :: "('a, 'i, 'b) dialect \<Rightarrow> ('a, 'i, 'b) message \<Rightarrow> ('a, 'i, 'b) action list" where
  "send translator m = generic_send translator m"

definition get_id :: "channel \<Rightarrow> channel_handle" where
  "get_id c = channel_id c"

text \<open>
  \<^verbatim>\<open>create_version_message\<close>. Its inputs are the gateway's \<^verbatim>\<open>get_ip_address()\<close> and the
  clock's \<^verbatim>\<open>time(NULL)\<close>.
\<close>

definition create_version_message :: "byte list \<Rightarrow> 64 word \<Rightarrow> message_version" where
  "create_version_message gateway_ip now =
     \<lparr>version = 31900,
      version_services = 1,
      timestamp = now,
      addr_me = \<lparr>services = 1, ip_addr = gateway_ip, port = 8333\<rparr>,
      addr_you = \<lparr>services = 1,
                  ip_addr = [0, 0, 0, 0, 0, 0, 0, 0, 0, 0, 0xff, 0xff, 10, 0, 0, 1],
                  port = 8333\<rparr>,
      nonce = 0xdeadbeef,
      sub_version_num = '''',
      start_height = 0\<rparr>"

text \<open>
  The constructor, from the value of the static \<^verbatim>\<open>chan_id_counter\<close>: the counter after
  it, the new channel and the effects. The counter is \<open>handle_bits\<close> wide and wraps. The
  arrays start zeroed (the source leaves them uninitialised) and the payload vector empty.
\<close>

definition chan_id_counter_init :: channel_handle where
  "chan_id_counter_init = 0"

definition channel_pimpl ::
  "nat \<Rightarrow> ('a, 'i, 'b) dialect \<Rightarrow> byte list \<Rightarrow> 64 word \<Rightarrow> channel_handle \<Rightarrow>
     channel_handle \<times> channel \<times> ('a, 'i, 'b) action list" where
  "channel_pimpl handle_bits translator gateway_ip now chan_id_counter =
     (let c = \<lparr>channel_id = chan_id_counter,
               inbound_header = replicate header_chunk_size 0,
               inbound_checksum = replicate header_checksum_size 0,
               inbound_payload = []\<rparr>;
          chan_id_counter' = (chan_id_counter + 1) mod 2 ^ handle_bits
      in (chan_id_counter', c,
          [timer_create] @ read_header @ reset_timeout
            @ send translator (version_msg (create_version_message gateway_ip now))))"

text \<open>The channels that \<open>n\<close> successive constructions make, oldest first.\<close>

fun create_channels ::
  "nat \<Rightarrow> ('a, 'i, 'b) dialect \<Rightarrow> byte list \<Rightarrow> 64 word \<Rightarrow> nat \<Rightarrow> channel_handle \<Rightarrow>
     channel list" where
  "create_channels handle_bits translator gateway_ip now 0 counter = []"
| "create_channels handle_bits translator gateway_ip now (Suc n) counter =
     (case channel_pimpl handle_bits translator gateway_ip now counter of
        (counter', c, acts) \<Rightarrow>
          c # create_channels handle_bits translator gateway_ip now n counter')"

section \<open>Reading a trace of effects\<close>

fun is_teardown :: "('a, 'i, 'b) action \<Rightarrow> bool" where
  "is_teardown (disconnect h) = True"
| "is_teardown a = False"

fun is_read :: "('a, 'i, 'b) action \<Rightarrow> bool" where
  "is_read (async_read b n cb) = True"
| "is_read a = False"

fun is_delivery :: "('a, 'i, 'b) action \<Rightarrow> bool" where
  "is_delivery (recv_message h m) = True"
| "is_delivery a = False"

fun is_timer :: "('a, 'i, 'b) action \<Rightarrow> bool" where
  "is_timer timer_create = True"
| "is_timer timer_cancel = True"
| "is_timer (timer_expires_from_now d) = True"
| "is_timer (timer_async_wait cb) = True"
| "is_timer a = False"

text \<open>
  The payload and the flag that \<^verbatim>\<open>handle_read_payload\<close> passes to
  \<^verbatim>\<open>transport_payload\<close>, by the branch of its chain of comparisons that the header's
  command takes; \<open>None\<close> when no branch is taken. Lemma \<open>handle_read_payload_dispatch\<close>
  below proves that this is what the handler does.
\<close>

definition dispatched ::
  "('a, 'i, 'b) dialect \<Rightarrow> header \<Rightarrow> data_chunk \<Rightarrow> (('a, 'i, 'b) message \<times> bool) option" where
  "dispatched translator header_msg payload_stream =
     (if command header_msg = ''version'' then
        Some (version_msg (fst (version_from_network translator header_msg payload_stream)),
              snd (version_from_network translator header_msg payload_stream))
      else if command header_msg = ''verack'' then Some (verack_msg, False)
      else if command header_msg = ''addr'' then
        Some (addr_msg (fst (addr_from_network translator header_msg payload_stream)),
              snd (addr_from_network translator header_msg payload_stream))
      else if command header_msg = ''inv'' then
        Some (inv_msg (fst (inv_from_network translator header_msg payload_stream)),
              snd (inv_from_network translator header_msg payload_stream))
      else if command header_msg = ''block'' then
        Some (block_msg (fst (block_from_network translator header_msg payload_stream)),
              snd (block_from_network translator header_msg payload_stream))
      else None)"

text \<open>The commands that have a branch in \<^verbatim>\<open>handle_read_payload\<close>.\<close>

definition dispatched_commands :: "string list" where
  "dispatched_commands = [''version'', ''verack'', ''addr'', ''inv'', ''block'']"

text \<open>
  The command tags that the specification enumerates as recognized, and among them the
  three requests that have no branch in \<^verbatim>\<open>handle_read_payload\<close>.
\<close>

definition recognized_commands :: "string list" where
  "recognized_commands =
     [''version'', ''verack'', ''getaddr'', ''getdata'', ''getblocks'', ''addr'', ''inv'', ''block'']"


text \<open>The line that \<^verbatim>\<open>handle_read_header\<close> logs for a valid header.\<close>

definition header_logged :: "header \<Rightarrow> ('a, 'i, 'b) action" where
  "header_logged header_msg =
     log_line info [Str ''r: '', Str (command header_msg), Str '' ('',
       Num (unat (payload_length header_msg)), Str '' bytes)'']"

text \<open>
  Two orders of the timer and the read within one handler. \<open>rearm_precedes_read\<close>: the
  wait on the timer is started, and a read is issued later. \<open>read_then_rearmed\<close>: no
  timer call comes before the first read, and what follows that read is exactly
  \<^verbatim>\<open>reset_timeout()\<close>.
\<close>

fun rearm_precedes_read :: "('a, 'i, 'b) action list \<Rightarrow> bool" where
  "rearm_precedes_read [] = False"
| "rearm_precedes_read (a # as) =
     (if a = timer_async_wait on_timeout then list_ex is_read as else rearm_precedes_read as)"

fun read_then_rearmed :: "('a, 'i, 'b) action list \<Rightarrow> bool" where
  "read_then_rearmed [] = False"
| "read_then_rearmed (a # as) =
     (if is_read a then as = reset_timeout else \<not> is_timer a \<and> read_then_rearmed as)"

subsection \<open>Concrete inputs\<close>

text \<open>
  For the closed examples: a dialect that parses every header to \<open>parsed\<close> and gives the
  answers it is told to give, a header, and a channel with a given handle and payload
  buffer.
\<close>

definition scripted_dialect ::
  "header \<Rightarrow> bool \<Rightarrow> bool \<Rightarrow> bool \<Rightarrow> bool \<Rightarrow> (nat, nat, nat) dialect" where
  "scripted_dialect parsed valid with_checksum checksum_ok decode_failed =
     \<lparr>header_from_network = (\<lambda>stream. parsed),
      verify_header = (\<lambda>h. valid),
      checksum_used = (\<lambda>h. with_checksum),
      checksum_from_network = (\<lambda>stream. 0),
      verify_checksum = (\<lambda>h stream. checksum_ok),
      version_from_network = (\<lambda>h stream. (create_version_message [] 0, decode_failed)),
      addr_from_network = (\<lambda>h stream. (length stream, decode_failed)),
      inv_from_network = (\<lambda>h stream. (length stream, decode_failed)),
      block_from_network = (\<lambda>h stream. (length stream, decode_failed)),
      to_network = (\<lambda>m. [])\<rparr>"

definition header_of :: "string \<Rightarrow> 32 word \<Rightarrow> header" where
  "header_of cmd n = \<lparr>magic = 0xd9b4bef9, command = cmd, payload_length = n, checksum = 0\<rparr>"

definition channel_with :: "channel_handle \<Rightarrow> data_chunk \<Rightarrow> channel" where
  "channel_with h payload =
     \<lparr>channel_id = h, inbound_header = replicate header_chunk_size 0,
      inbound_checksum = replicate header_checksum_size 0, inbound_payload = payload\<rparr>"

section \<open>What each handler does\<close>

lemma problems_check_no_error: "problems_check c no_error = (False, [])"
  by (simp add: problems_check_def)

lemma problems_check_cases:
  "problems_check c ec =
     (if ec = operation_aborted then (True, [])
      else if ec = no_error then (False, []) else (True, [disconnect (channel_id c)]))"
  by (simp add: problems_check_def destroy_self_def)

lemma read_payload_sized:
  "read_payload c header_msg =
     (c\<lparr>inbound_payload := resize (unat (payload_length header_msg)) (inbound_payload c)\<rparr>,
      [async_read payload_buffer (unat (payload_length header_msg)) (on_read_payload header_msg)])"
  by (simp add: read_payload_def resize_def Let_def)

lemma length_resize: "length (resize n xs) = n"
  by (simp add: resize_def)

lemma handle_read_header_invalid:
  assumes "bitcoin_assert checked (bytes_transferred = header_chunk_size)"
    and "bitcoin_assert checked (length (inbound_header c) = header_chunk_size)"
    and "\<not> verify_header translator (header_from_network translator (inbound_header c))"
  shows "handle_read_header checked translator c no_error bytes_transferred =
           Inr (c, [log_line debug [Str ''Bad header received.''], disconnect (channel_id c)])"
  using assms
  by (simp add: handle_read_header_def problems_check_no_error destroy_self_def)

lemma handle_read_header_cases:
  "handle_read_header checked translator c ec bytes_transferred =
     (if ec = operation_aborted then Inr (c, [])
      else if ec \<noteq> no_error then Inr (c, [disconnect (channel_id c)])
      else if \<not> bitcoin_assert checked (bytes_transferred = header_chunk_size)
      then Inl assertion_failed
      else if \<not> bitcoin_assert checked (length (inbound_header c) = header_chunk_size)
      then Inl assertion_failed
      else if \<not> verify_header translator (header_from_network translator (inbound_header c))
      then Inr (c, [log_line debug [Str ''Bad header received.''], disconnect (channel_id c)])
      else if checksum_used translator (header_from_network translator (inbound_header c))
      then Inr (c, header_logged (header_from_network translator (inbound_header c))
                 # async_read checksum_buffer header_checksum_size
                     (on_read_checksum (header_from_network translator (inbound_header c)))
                 # reset_timeout)
      else Inr (c\<lparr>inbound_payload :=
                    resize (unat (payload_length
                      (header_from_network translator (inbound_header c)))) (inbound_payload c)\<rparr>,
                header_logged (header_from_network translator (inbound_header c))
                 # async_read payload_buffer
                     (unat (payload_length (header_from_network translator (inbound_header c))))
                     (on_read_payload (header_from_network translator (inbound_header c)))
                 # reset_timeout))"
  by (simp add: handle_read_header_def problems_check_cases destroy_self_def Let_def
      read_payload_sized read_checksum_def header_logged_def)

lemma handle_read_checksum_cases:
  "handle_read_checksum checked translator c header_msg ec bytes_transferred =
     (if ec = operation_aborted then Inr (c, [])
      else if ec \<noteq> no_error then Inr (c, [disconnect (channel_id c)])
      else if \<not> bitcoin_assert checked (bytes_transferred = header_checksum_size)
      then Inl assertion_failed
      else if \<not> bitcoin_assert checked (length (inbound_checksum c) = header_checksum_size)
      then Inl assertion_failed
      else Inr (c\<lparr>inbound_payload :=
                    resize (unat (payload_length header_msg)) (inbound_payload c)\<rparr>,
                async_read payload_buffer (unat (payload_length header_msg))
                  (on_read_payload (header_msg\<lparr>checksum :=
                     checksum_from_network translator (inbound_checksum c)\<rparr>))
                 # reset_timeout))"
  by (simp add: handle_read_checksum_def problems_check_cases destroy_self_def Let_def
      read_payload_sized)

text \<open>The payload handler, once the read has completed and the checksum is verified.\<close>

lemma handle_read_payload_unasserted:
  "\<not> (bitcoin_assert checked (bytes_transferred = unat (payload_length header_msg))
      \<and> bitcoin_assert checked (length (inbound_payload c) = unat (payload_length header_msg)))
   \<Longrightarrow> handle_read_payload checked translator sink c header_msg no_error bytes_transferred
         = Inl assertion_failed"
  by (auto simp: handle_read_payload_def problems_check_no_error)

lemma handle_read_payload_bad_checksum:
  assumes "bitcoin_assert checked (bytes_transferred = unat (payload_length header_msg))"
    and "bitcoin_assert checked (length (inbound_payload c) = unat (payload_length header_msg))"
    and "\<not> verify_checksum translator header_msg (inbound_payload c)"
  shows "handle_read_payload checked translator sink c header_msg no_error bytes_transferred =
           Inr (c, [log_line warning [Str ''Bad checksum!''], disconnect (channel_id c)])"
  using assms
  by (simp add: handle_read_payload_def problems_check_no_error destroy_self_def)

lemma handle_read_payload_dispatch:
  assumes "bitcoin_assert checked (bytes_transferred = unat (payload_length header_msg))"
    and "bitcoin_assert checked (length (inbound_payload c) = unat (payload_length header_msg))"
    and "verify_checksum translator header_msg (inbound_payload c)"
  shows "handle_read_payload checked translator sink c header_msg no_error bytes_transferred =
     (case dispatched translator header_msg (inbound_payload c) of
        None \<Rightarrow> Inr (c, read_header @ reset_timeout)
      | Some (m, ret_errc) \<Rightarrow>
          if ret_errc then Inr (c, [disconnect (channel_id c)])
          else if \<not> sink (channel_id c) m
          then Inr (c, [recv_message (channel_id c) m, disconnect (channel_id c)])
          else Inr (c, recv_message (channel_id c) m # read_header @ reset_timeout))"
  using assms
  by (simp add: handle_read_payload_def problems_check_no_error dispatched_def
      transport_payload_def destroy_self_def Let_def split_beta)

lemma dispatched_None:
  "dispatched translator header_msg payload_stream = None
     \<longleftrightarrow> command header_msg \<notin> set dispatched_commands"
  by (simp add: dispatched_def dispatched_commands_def)

lemma handle_read_payload_undispatched:
  assumes "command header_msg \<notin> set dispatched_commands"
  shows "handle_read_payload checked translator sink c header_msg ec bytes_transferred =
     (if ec = operation_aborted then Inr (c, [])
      else if ec \<noteq> no_error then Inr (c, [disconnect (channel_id c)])
      else if \<not> bitcoin_assert checked (bytes_transferred = unat (payload_length header_msg))
      then Inl assertion_failed
      else if \<not> bitcoin_assert checked
                 (length (inbound_payload c) = unat (payload_length header_msg))
      then Inl assertion_failed
      else if \<not> verify_checksum translator header_msg (inbound_payload c)
      then Inr (c, [log_line warning [Str ''Bad checksum!''], disconnect (channel_id c)])
      else Inr (c, read_header @ reset_timeout))"
  using assms
  by (simp add: handle_read_payload_def problems_check_cases dispatched_commands_def
      destroy_self_def)

text \<open>Every run of the payload handler that returns is one of seven.\<close>

lemma handle_read_payload_effects:
  "handle_read_payload checked translator sink c header_msg ec bytes_transferred = Inr (c', acts)
   \<Longrightarrow> c' = c \<and>
     (acts = [] \<and> ec = operation_aborted
      \<or> acts = [disconnect (channel_id c)] \<and> ec \<noteq> no_error \<and> ec \<noteq> operation_aborted
      \<or> acts = [log_line warning [Str ''Bad checksum!''], disconnect (channel_id c)]
          \<and> ec = no_error
      \<or> acts = read_header @ reset_timeout \<and> ec = no_error
          \<and> command header_msg \<notin> set dispatched_commands
      \<or> (\<exists>m. acts = [disconnect (channel_id c)] \<and> ec = no_error
            \<and> dispatched translator header_msg (inbound_payload c) = Some (m, True))
      \<or> (\<exists>m. acts = [recv_message (channel_id c) m, disconnect (channel_id c)] \<and> ec = no_error
            \<and> dispatched translator header_msg (inbound_payload c) = Some (m, False))
      \<or> (\<exists>m. acts = recv_message (channel_id c) m # read_header @ reset_timeout \<and> ec = no_error
            \<and> dispatched translator header_msg (inbound_payload c) = Some (m, False)))"
proof (cases "ec = no_error")
  case False
  assume "handle_read_payload checked translator sink c header_msg ec bytes_transferred
            = Inr (c', acts)"
  with False show ?thesis
    by (auto simp: handle_read_payload_def problems_check_cases split: if_splits)
next
  case True
  assume r: "handle_read_payload checked translator sink c header_msg ec bytes_transferred
            = Inr (c', acts)"
  have a: "bitcoin_assert checked (bytes_transferred = unat (payload_length header_msg))"
    and b: "bitcoin_assert checked (length (inbound_payload c) = unat (payload_length header_msg))"
    using r True
      handle_read_payload_unasserted [of checked bytes_transferred header_msg c translator sink]
    by auto
  show ?thesis
  proof (cases "verify_checksum translator header_msg (inbound_payload c)")
    case False
    from r True handle_read_payload_bad_checksum [OF a b False, of sink]
    show ?thesis by auto
  next
    case ok: True
    show ?thesis
    proof (cases "dispatched translator header_msg (inbound_payload c)")
      case None
      with r True handle_read_payload_dispatch [OF a b ok, of sink]
      show ?thesis by (auto simp: dispatched_None)
    next
      case (Some p)
      obtain m e where p: "p = (m, e)" by (cases p)
      from r True Some p handle_read_payload_dispatch [OF a b ok, of sink]
      show ?thesis by (auto split: if_splits)
    qed
  qed
qed


lemma recognized_not_dispatched:
  "cmd \<notin> set recognized_commands \<Longrightarrow> cmd \<notin> set dispatched_commands"
  by (auto simp: recognized_commands_def dispatched_commands_def)


text \<open>
  A handler returns unless a checked assertion fails: when the read has transferred as
  many bytes as its buffer holds, every handler runs to its end.
\<close>

lemma handlers_return:
  "bitcoin_assert checked (n = header_chunk_size) \<Longrightarrow>
   bitcoin_assert checked (length (inbound_header c) = header_chunk_size) \<Longrightarrow>
     \<exists>c' acts. handle_read_header checked translator c ec n = Inr (c', acts)"
  "bitcoin_assert checked (n = header_checksum_size) \<Longrightarrow>
   bitcoin_assert checked (length (inbound_checksum c) = header_checksum_size) \<Longrightarrow>
     \<exists>c' acts. handle_read_checksum checked translator c header_msg ec n = Inr (c', acts)"
  "bitcoin_assert checked (n = unat (payload_length header_msg)) \<Longrightarrow>
   bitcoin_assert checked (length (inbound_payload c) = unat (payload_length header_msg)) \<Longrightarrow>
     \<exists>c' acts. handle_read_payload checked translator sink c header_msg ec n = Inr (c', acts)"
proof -
  show "bitcoin_assert checked (n = header_chunk_size) \<Longrightarrow>
   bitcoin_assert checked (length (inbound_header c) = header_chunk_size) \<Longrightarrow>
     \<exists>c' acts. handle_read_header checked translator c ec n = Inr (c', acts)"
    by (simp add: handle_read_header_cases)
  show "bitcoin_assert checked (n = header_checksum_size) \<Longrightarrow>
   bitcoin_assert checked (length (inbound_checksum c) = header_checksum_size) \<Longrightarrow>
     \<exists>c' acts. handle_read_checksum checked translator c header_msg ec n = Inr (c', acts)"
    by (simp add: handle_read_checksum_cases)
  show "\<exists>c' acts. handle_read_payload checked translator sink c header_msg ec n = Inr (c', acts)"
    if a: "bitcoin_assert checked (n = unat (payload_length header_msg))"
      and b: "bitcoin_assert checked
                (length (inbound_payload c) = unat (payload_length header_msg))"
  proof (cases "ec = no_error")
    case False
    then show ?thesis
      by (simp add: handle_read_payload_def problems_check_cases)
  next
    case True
    show ?thesis
    proof (cases "verify_checksum translator header_msg (inbound_payload c)")
      case False
      with True handle_read_payload_bad_checksum [OF a b False, of sink]
      show ?thesis by simp
    next
      case ok: True
      with True handle_read_payload_dispatch [OF a b ok, of sink]
      show ?thesis by (simp split: option.splits prod.splits)
    qed
  qed
qed

text \<open>Evaluation of the concrete inputs.\<close>

lemma channel_with_simps:
  "channel_id (channel_with h p) = h"
  "inbound_header (channel_with h p) = replicate header_chunk_size 0"
  "inbound_checksum (channel_with h p) = replicate header_checksum_size 0"
  "inbound_payload (channel_with h p) = p"
  "channel_with h p\<lparr>inbound_payload := q\<rparr> = channel_with h q"
  by (simp_all add: channel_with_def)

lemma scripted_dialect_simps:
  "header_from_network (scripted_dialect parsed valid with_checksum checksum_ok failed) s = parsed"
  "verify_header (scripted_dialect parsed valid with_checksum checksum_ok failed) h = valid"
  "checksum_used (scripted_dialect parsed valid with_checksum checksum_ok failed) h = with_checksum"
  "checksum_from_network (scripted_dialect parsed valid with_checksum checksum_ok failed) s = 0"
  "verify_checksum (scripted_dialect parsed valid with_checksum checksum_ok failed) h s
     = checksum_ok"
  by (simp_all add: scripted_dialect_def)

lemma header_of_simps:
  "command (header_of cmd n) = cmd"
  "payload_length (header_of cmd n) = n"
  "header_of cmd n\<lparr>checksum := 0\<rparr> = header_of cmd n"
  by (simp_all add: header_of_def)

lemma resize_3: "resize 3 [] = [0, 0, 0]"
  by (simp add: resize_def numeral_3_eq_3)

section \<open>The inactivity timer\<close>

text \<open>
  C1. The handler of the inactivity timer: when the error code is not
  \<^verbatim>\<open>operation_aborted\<close>, it sends exactly one teardown request to the gateway, for this
  channel; when it is \<^verbatim>\<open>operation_aborted\<close>, the handler does nothing at all.
\<close>

theorem handle_timeout_teardown:
  "(ec \<noteq> operation_aborted \<longrightarrow>
      filter is_teardown (handle_timeout c ec :: ('a, 'i, 'b) action list)
        = [disconnect (channel_id c)]) \<and>
   (ec = operation_aborted \<longrightarrow> (handle_timeout c ec :: ('a, 'i, 'b) action list) = [])"
  by (cases ec) (simp_all add: handle_timeout_def problems_check_def destroy_self_def)

theorem handle_timeout_teardown_witness:
  "filter is_teardown
     (handle_timeout \<lparr>channel_id = 7, inbound_header = [], inbound_checksum = [],
        inbound_payload = []\<rparr> no_error :: (unit, unit, unit) action list) = [disconnect 7] \<and>
   filter is_teardown
     (handle_timeout \<lparr>channel_id = 7, inbound_header = [], inbound_checksum = [],
        inbound_payload = []\<rparr> (other_error 104) :: (unit, unit, unit) action list)
     = [disconnect 7] \<and>
   (handle_timeout \<lparr>channel_id = 7, inbound_header = [], inbound_checksum = [],
        inbound_payload = []\<rparr> operation_aborted :: (unit, unit, unit) action list) = []"
  using handle_timeout_teardown
          [of no_error "\<lparr>channel_id = 7, inbound_header = [], inbound_checksum = [],
             inbound_payload = []\<rparr>", where ?'a = unit and ?'i = unit and ?'b = unit]
        handle_timeout_teardown
          [of "other_error 104" "\<lparr>channel_id = 7, inbound_header = [], inbound_checksum = [],
             inbound_payload = []\<rparr>", where ?'a = unit and ?'i = unit and ?'b = unit]
        handle_timeout_teardown
          [of operation_aborted "\<lparr>channel_id = 7, inbound_header = [], inbound_checksum = [],
             inbound_payload = []\<rparr>", where ?'a = unit and ?'i = unit and ?'b = unit]
  by simp

text \<open>
  C2, as amended. Whenever the completion handler of a read stage (header, checksum or
  payload) goes on to the next stage, it rearms the timer in the same call, immediately
  after the next read is issued and not before it: no timer call precedes the read, and
  the read is followed by \<^verbatim>\<open>reset_timeout()\<close> and nothing else. The header handler goes
  on when the read succeeded and the header is valid, the checksum handler when the read
  succeeded, the payload handler when the read succeeded and it requests no teardown. A
  handler that does not go on issues no read and does not touch the timer.
\<close>

theorem rearm_follows_read:
  "(handle_read_header checked translator c1 ec1 n1 = Inr (c1', acts1) \<longrightarrow>
      (if ec1 = no_error
          \<and> verify_header translator (header_from_network translator (inbound_header c1))
       then read_then_rearmed acts1
       else filter is_read acts1 = [] \<and> filter is_timer acts1 = [])) \<and>
   (handle_read_checksum checked translator c2 header2 ec2 n2 = Inr (c2', acts2) \<longrightarrow>
      (if ec2 = no_error then read_then_rearmed acts2
       else filter is_read acts2 = [] \<and> filter is_timer acts2 = [])) \<and>
   (handle_read_payload checked translator sink c3 header3 ec3 n3 = Inr (c3', acts3) \<longrightarrow>
      (if ec3 = no_error \<and> filter is_teardown acts3 = [] then read_then_rearmed acts3
       else filter is_read acts3 = [] \<and> filter is_timer acts3 = []))"
proof (intro conjI impI)
  assume "handle_read_header checked translator c1 ec1 n1 = Inr (c1', acts1)"
  then show "if ec1 = no_error
          \<and> verify_header translator (header_from_network translator (inbound_header c1))
       then read_then_rearmed acts1
       else filter is_read acts1 = [] \<and> filter is_timer acts1 = []"
    by (auto simp: handle_read_header_cases header_logged_def split: if_splits)
next
  assume "handle_read_checksum checked translator c2 header2 ec2 n2 = Inr (c2', acts2)"
  then show "if ec2 = no_error then read_then_rearmed acts2
       else filter is_read acts2 = [] \<and> filter is_timer acts2 = []"
    by (auto simp: handle_read_checksum_cases split: if_splits)
next
  assume "handle_read_payload checked translator sink c3 header3 ec3 n3 = Inr (c3', acts3)"
  from handle_read_payload_effects [OF this]
  show "if ec3 = no_error \<and> filter is_teardown acts3 = [] then read_then_rearmed acts3
       else filter is_read acts3 = [] \<and> filter is_timer acts3 = []"
    by (auto simp: read_header_def reset_timeout_def)
qed

theorem rearm_follows_read_witness:
  "handle_read_header True (scripted_dialect (header_of ''inv'' 3) True True True False)
      (channel_with 7 []) no_error 20
     = Inr (channel_with 7 [],
            [header_logged (header_of ''inv'' 3),
             async_read checksum_buffer 4 (on_read_checksum (header_of ''inv'' 3)),
             timer_cancel, timer_expires_from_now 5400, timer_async_wait on_timeout]) \<and>
   read_then_rearmed
     ([header_logged (header_of ''inv'' 3),
       async_read checksum_buffer 4 (on_read_checksum (header_of ''inv'' 3)),
       timer_cancel, timer_expires_from_now 5400, timer_async_wait on_timeout]
        :: (nat, nat, nat) action list) \<and>
   handle_read_checksum True (scripted_dialect (header_of ''inv'' 3) True True True False)
      (channel_with 7 []) (header_of ''inv'' 3) no_error 4
     = Inr (channel_with 7 [0, 0, 0],
            [async_read payload_buffer 3 (on_read_payload (header_of ''inv'' 3)),
             timer_cancel, timer_expires_from_now 5400, timer_async_wait on_timeout]) \<and>
   read_then_rearmed
     ([async_read payload_buffer 3 (on_read_payload (header_of ''inv'' 3)),
       timer_cancel, timer_expires_from_now 5400, timer_async_wait on_timeout]
        :: (nat, nat, nat) action list) \<and>
   handle_read_payload True (scripted_dialect (header_of ''inv'' 3) True True True False)
      (\<lambda>h m. True) (channel_with 7 [1, 2, 3]) (header_of ''inv'' 3) no_error 3
     = Inr (channel_with 7 [1, 2, 3],
            [recv_message 7 (inv_msg 3), async_read header_buffer 20 on_read_header,
             timer_cancel, timer_expires_from_now 5400, timer_async_wait on_timeout]) \<and>
   read_then_rearmed
     ([recv_message 7 (inv_msg 3), async_read header_buffer 20 on_read_header,
       timer_cancel, timer_expires_from_now 5400, timer_async_wait on_timeout]
        :: (nat, nat, nat) action list)"
proof -
  let ?e = "scripted_dialect (header_of ''inv'' 3) True True True False"
  let ?a1 = "[header_logged (header_of ''inv'' 3),
             async_read checksum_buffer 4 (on_read_checksum (header_of ''inv'' 3)),
             timer_cancel, timer_expires_from_now 5400, timer_async_wait on_timeout]
               :: (nat, nat, nat) action list"
  let ?a2 = "[async_read payload_buffer 3 (on_read_payload (header_of ''inv'' 3)),
             timer_cancel, timer_expires_from_now 5400, timer_async_wait on_timeout]
               :: (nat, nat, nat) action list"
  let ?a3 = "[recv_message 7 (inv_msg 3), async_read header_buffer 20 on_read_header,
             timer_cancel, timer_expires_from_now 5400, timer_async_wait on_timeout]
               :: (nat, nat, nat) action list"
  have h: "handle_read_header True ?e (channel_with 7 []) no_error 20
             = Inr (channel_with 7 [], ?a1)"
    by (simp add: handle_read_header_cases channel_with_simps scripted_dialect_simps
        header_of_simps bitcoin_assert_def header_chunk_size_def header_checksum_size_def
        reset_timeout_def disconnect_timeout_def)
  have k: "handle_read_checksum True ?e (channel_with 7 []) (header_of ''inv'' 3) no_error 4
             = Inr (channel_with 7 [0, 0, 0], ?a2)"
    by (simp add: handle_read_checksum_cases channel_with_simps scripted_dialect_simps
        header_of_simps bitcoin_assert_def header_checksum_size_def reset_timeout_def
        disconnect_timeout_def resize_3)
  have p: "handle_read_payload True ?e (\<lambda>h m. True) (channel_with 7 [1, 2, 3])
             (header_of ''inv'' 3) no_error 3 = Inr (channel_with 7 [1, 2, 3], ?a3)"
    by (simp add: handle_read_payload_dispatch channel_with_simps scripted_dialect_simps
        header_of_simps bitcoin_assert_def dispatched_def scripted_dialect_def
        read_header_def header_chunk_size_def reset_timeout_def disconnect_timeout_def)
  have v: "verify_header ?e (header_from_network ?e (inbound_header (channel_with 7 [])))"
    by (simp add: scripted_dialect_simps)
  have t: "filter is_teardown ?a3 = []"
    by simp
  from rearm_follows_read [where checked = True and translator = ?e and sink = "\<lambda>h m. True"
      and ?c1.0 = "channel_with 7 []" and ?ec1.0 = no_error and ?n1.0 = 20
      and ?c1' = "channel_with 7 []" and ?acts1.0 = ?a1
      and ?c2.0 = "channel_with 7 []" and ?header2.0 = "header_of ''inv'' 3"
      and ?ec2.0 = no_error and ?n2.0 = 4 and ?c2' = "channel_with 7 [0, 0, 0]"
      and ?acts2.0 = ?a2
      and ?c3.0 = "channel_with 7 [1, 2, 3]" and ?header3.0 = "header_of ''inv'' 3"
      and ?ec3.0 = no_error and ?n3.0 = 3 and ?c3' = "channel_with 7 [1, 2, 3]"
      and ?acts3.0 = ?a3]
  have "read_then_rearmed ?a1 \<and> read_then_rearmed ?a2 \<and> read_then_rearmed ?a3"
    unfolding h k p using v t by (simp add: header_logged_def)
  with h k p show ?thesis by blast
qed

text \<open>
  C2 as stated fails. A valid header is completed: the payload read is issued first and
  the timer is rearmed after it. A payload read is completed and its checksum is bad: the
  timer is not rearmed at all.
\<close>

theorem rearm_before_read_counterexample:
  "handle_read_header True (scripted_dialect (header_of ''verack'' 0) True False True False)
      (channel_with 7 []) no_error 20
     = Inr (channel_with 7 [],
            [log_line info [Str ''r: '', Str ''verack'', Str '' ('', Num 0, Str '' bytes)''],
             async_read payload_buffer 0 (on_read_payload (header_of ''verack'' 0)),
             timer_cancel, timer_expires_from_now 5400, timer_async_wait on_timeout]) \<and>
   \<not> rearm_precedes_read
     ([log_line info [Str ''r: '', Str ''verack'', Str '' ('', Num 0, Str '' bytes)''],
       async_read payload_buffer 0 (on_read_payload (header_of ''verack'' 0)),
       timer_cancel, timer_expires_from_now 5400, timer_async_wait on_timeout]
        :: (nat, nat, nat) action list) \<and>
   handle_read_payload True (scripted_dialect (header_of ''block'' 3) True True False False)
      (\<lambda>h m. True) (channel_with 7 [1, 2, 3]) (header_of ''block'' 3) no_error 3
     = Inr (channel_with 7 [1, 2, 3],
            [log_line warning [Str ''Bad checksum!''], disconnect 7])"
proof -
  have "handle_read_header True (scripted_dialect (header_of ''verack'' 0) True False True False)
      (channel_with 7 []) no_error 20
     = Inr (channel_with 7 [],
            [log_line info [Str ''r: '', Str ''verack'', Str '' ('', Num 0, Str '' bytes)''],
             async_read payload_buffer 0 (on_read_payload (header_of ''verack'' 0)),
             timer_cancel, timer_expires_from_now 5400, timer_async_wait on_timeout])"
    by (simp add: handle_read_header_cases channel_with_simps scripted_dialect_simps
        header_of_simps bitcoin_assert_def header_chunk_size_def header_logged_def
        reset_timeout_def disconnect_timeout_def resize_def)
  moreover have "\<not> rearm_precedes_read
     ([log_line info [Str ''r: '', Str ''verack'', Str '' ('', Num 0, Str '' bytes)''],
       async_read payload_buffer 0 (on_read_payload (header_of ''verack'' 0)),
       timer_cancel, timer_expires_from_now 5400, timer_async_wait on_timeout]
        :: (nat, nat, nat) action list)"
    by simp
  moreover have "handle_read_payload True
      (scripted_dialect (header_of ''block'' 3) True True False False)
      (\<lambda>h m. True) (channel_with 7 [1, 2, 3]) (header_of ''block'' 3) no_error 3
     = Inr (channel_with 7 [1, 2, 3],
            [log_line warning [Str ''Bad checksum!''], disconnect 7])"
    by (simp add: handle_read_payload_bad_checksum channel_with_simps scripted_dialect_simps
        header_of_simps bitcoin_assert_def)
  ultimately show ?thesis by blast
qed

section \<open>Failures end the channel\<close>

text \<open>
  C3. A header read is completed (no error, and the assertions of the handler hold) and
  the dialect rejects the parsed header: the channel sends exactly one teardown request
  and issues no read.
\<close>

theorem invalid_header_teardown:
  assumes "bitcoin_assert checked (bytes_transferred = header_chunk_size)"
    and "bitcoin_assert checked (length (inbound_header c) = header_chunk_size)"
    and "\<not> verify_header translator (header_from_network translator (inbound_header c))"
  shows "\<exists>acts. handle_read_header checked translator c no_error bytes_transferred = Inr (c, acts)
           \<and> filter is_teardown acts = [disconnect (channel_id c)]
           \<and> filter is_read acts = []"
  by (simp add: handle_read_header_invalid [OF assms])

theorem invalid_header_teardown_witness:
  "bitcoin_assert True ((20::nat) = header_chunk_size) \<and>
   bitcoin_assert True (length (inbound_header (channel_with 7 [])) = header_chunk_size) \<and>
   \<not> verify_header (scripted_dialect (header_of ''verack'' 0) False False True False)
       (header_from_network (scripted_dialect (header_of ''verack'' 0) False False True False)
          (inbound_header (channel_with 7 []))) \<and>
   (\<exists>acts. handle_read_header True (scripted_dialect (header_of ''verack'' 0) False False True False)
              (channel_with 7 []) no_error 20 = Inr (channel_with 7 [], acts)
         \<and> filter is_teardown acts = [disconnect (channel_id (channel_with 7 []))]
         \<and> filter is_read acts = [])"
proof -
  let ?d = "scripted_dialect (header_of ''verack'' 0) False False True False"
  have a: "bitcoin_assert True ((20::nat) = header_chunk_size)"
    by (simp add: bitcoin_assert_def header_chunk_size_def)
  have b: "bitcoin_assert True (length (inbound_header (channel_with 7 [])) = header_chunk_size)"
    by (simp add: bitcoin_assert_def channel_with_def)
  have c: "\<not> verify_header ?d (header_from_network ?d (inbound_header (channel_with 7 [])))"
    by (simp add: scripted_dialect_def)
  from a b c invalid_header_teardown [OF a b c] show ?thesis by blast
qed

text \<open>
  C4. A payload read is completed and the dialect's checksum verification fails: the
  channel sends exactly one teardown request and delivers nothing to the kernel.
\<close>

theorem bad_checksum_teardown:
  assumes "bitcoin_assert checked (bytes_transferred = unat (payload_length header_msg))"
    and "bitcoin_assert checked (length (inbound_payload c) = unat (payload_length header_msg))"
    and "\<not> verify_checksum translator header_msg (inbound_payload c)"
  shows "\<exists>acts. handle_read_payload checked translator sink c header_msg no_error
                  bytes_transferred = Inr (c, acts)
           \<and> filter is_teardown acts = [disconnect (channel_id c)]
           \<and> filter is_delivery acts = []"
  by (simp add: handle_read_payload_bad_checksum [OF assms])

theorem bad_checksum_teardown_witness:
  "bitcoin_assert True ((3::nat) = unat (payload_length (header_of ''block'' 3))) \<and>
   bitcoin_assert True (length (inbound_payload (channel_with 7 [1, 2, 3]))
      = unat (payload_length (header_of ''block'' 3))) \<and>
   \<not> verify_checksum (scripted_dialect (header_of ''block'' 3) True True False False)
       (header_of ''block'' 3) (inbound_payload (channel_with 7 [1, 2, 3])) \<and>
   (\<exists>acts. handle_read_payload True (scripted_dialect (header_of ''block'' 3) True True False False)
              (\<lambda>h m. True) (channel_with 7 [1, 2, 3]) (header_of ''block'' 3) no_error 3
              = Inr (channel_with 7 [1, 2, 3], acts)
         \<and> filter is_teardown acts = [disconnect (channel_id (channel_with 7 [1, 2, 3]))]
         \<and> filter is_delivery acts = [])"
proof -
  let ?d = "scripted_dialect (header_of ''block'' 3) True True False False"
  let ?c = "channel_with 7 [1, 2, 3]"
  have a: "bitcoin_assert True ((3::nat) = unat (payload_length (header_of ''block'' 3)))"
    by (simp add: bitcoin_assert_def header_of_def)
  have b: "bitcoin_assert True (length (inbound_payload ?c)
             = unat (payload_length (header_of ''block'' 3)))"
    by (simp add: bitcoin_assert_def header_of_def channel_with_def)
  have c: "\<not> verify_checksum ?d (header_of ''block'' 3) (inbound_payload ?c)"
    by (simp add: scripted_dialect_def)
  from a b c bad_checksum_teardown [OF a b c, of "\<lambda>h m. True"] show ?thesis by blast
qed

text \<open>
  C5. A payload read is completed, its checksum is verified and the command has a branch
  that passes message \<open>m\<close> and flag \<open>ret_errc\<close> on. When the decoding set the flag, the
  channel sends one teardown request, the kernel is not called and no read is issued. When
  the flag is clear and the kernel rejects \<open>m\<close>, the kernel was called once with \<open>m\<close>,
  the channel sends exactly one teardown request and no read is issued.
\<close>

theorem dispatch_failure_teardown:
  assumes "bitcoin_assert checked (bytes_transferred = unat (payload_length header_msg))"
    and "bitcoin_assert checked (length (inbound_payload c) = unat (payload_length header_msg))"
    and "verify_checksum translator header_msg (inbound_payload c)"
    and "dispatched translator header_msg (inbound_payload c) = Some (m, ret_errc)"
  shows "\<exists>acts. handle_read_payload checked translator sink c header_msg no_error
                  bytes_transferred = Inr (c, acts)
           \<and> (ret_errc \<longrightarrow>
                 filter is_teardown acts = [disconnect (channel_id c)]
               \<and> filter is_delivery acts = []
               \<and> filter is_read acts = [])
           \<and> (\<not> ret_errc \<and> \<not> sink (channel_id c) m \<longrightarrow>
                 filter is_delivery acts = [recv_message (channel_id c) m]
               \<and> filter is_teardown acts = [disconnect (channel_id c)]
               \<and> filter is_read acts = [])"
  using assms(4)
  by (simp add: handle_read_payload_dispatch [OF assms(1-3)] read_header_def reset_timeout_def)

theorem dispatch_failure_teardown_witness:
  "(\<exists>acts. handle_read_payload True (scripted_dialect (header_of ''block'' 3) True True True True)
              (\<lambda>h m. True) (channel_with 7 [1, 2, 3]) (header_of ''block'' 3) no_error 3
              = Inr (channel_with 7 [1, 2, 3], acts)
         \<and> filter is_teardown acts = [disconnect 7]
         \<and> filter is_delivery acts = []
         \<and> filter is_read acts = []) \<and>
   (\<exists>acts. handle_read_payload True (scripted_dialect (header_of ''block'' 3) True True True False)
              (\<lambda>h m. False) (channel_with 7 [1, 2, 3]) (header_of ''block'' 3) no_error 3
              = Inr (channel_with 7 [1, 2, 3], acts)
         \<and> filter is_delivery acts = [recv_message 7 (block_msg 3)]
         \<and> filter is_teardown acts = [disconnect 7]
         \<and> filter is_read acts = [])"
proof -
  let ?f = "scripted_dialect (header_of ''block'' 3) True True True True"
  let ?g = "scripted_dialect (header_of ''block'' 3) True True True False"
  let ?c = "channel_with 7 [1, 2, 3]"
  let ?h = "header_of ''block'' 3"
  have a: "bitcoin_assert True ((3::nat) = unat (payload_length ?h))"
    by (simp add: bitcoin_assert_def header_of_def)
  have b: "bitcoin_assert True (length (inbound_payload ?c) = unat (payload_length ?h))"
    by (simp add: bitcoin_assert_def header_of_def channel_with_def)
  have cf: "verify_checksum ?f ?h (inbound_payload ?c)"
    and cg: "verify_checksum ?g ?h (inbound_payload ?c)"
    by (simp_all add: scripted_dialect_def)
  have df: "dispatched ?f ?h (inbound_payload ?c) = Some (block_msg 3, True)"
    and dg: "dispatched ?g ?h (inbound_payload ?c) = Some (block_msg 3, False)"
    by (simp_all add: dispatched_def scripted_dialect_def header_of_def channel_with_def)
  have id: "channel_id ?c = 7"
    by (simp add: channel_with_def)
  from dispatch_failure_teardown [OF a b cf df, of "\<lambda>h m. True"]
       dispatch_failure_teardown [OF a b cg dg, of "\<lambda>h m. False"]
  show ?thesis by (simp add: id)
qed

section \<open>Commands without a branch\<close>

text \<open>
  C6. For a valid header whose command is outside the recognized enumeration: the
  header handler issues one read, of the checksum or of exactly the declared number of
  payload bytes, and the checksum handler issues one read of exactly the declared number
  of payload bytes; neither requests a teardown or calls the kernel. In the cycle that
  reaches the dispatch (the payload read is completed and the dialect's checksum
  verification, which the handler does first for every command, has passed) the payload
  handler does not call the kernel, requests no teardown and issues the read of the next
  header. The kernel is not called in any run of the payload handler for such a header,
  whatever the error code and the checksum verdict.
\<close>

theorem unrecognized_command_dropped:
  assumes "command header_msg \<notin> set recognized_commands"
  shows
  "(bitcoin_assert checked (n1 = header_chunk_size) \<and>
    bitcoin_assert checked (length (inbound_header c1) = header_chunk_size) \<and>
    header_from_network translator (inbound_header c1) = header_msg \<and>
    verify_header translator header_msg \<longrightarrow>
      (\<exists>c' acts. handle_read_header checked translator c1 no_error n1 = Inr (c', acts)
         \<and> filter is_teardown acts = [] \<and> filter is_delivery acts = []
         \<and> filter is_read acts
             = (if checksum_used translator header_msg
                then [async_read checksum_buffer header_checksum_size
                        (on_read_checksum header_msg)]
                else [async_read payload_buffer (unat (payload_length header_msg))
                        (on_read_payload header_msg)]))) \<and>
   (bitcoin_assert checked (n2 = header_checksum_size) \<and>
    bitcoin_assert checked (length (inbound_checksum c2) = header_checksum_size) \<longrightarrow>
      (\<exists>c' acts. handle_read_checksum checked translator c2 header_msg no_error n2
                    = Inr (c', acts)
         \<and> filter is_teardown acts = [] \<and> filter is_delivery acts = []
         \<and> filter is_read acts
             = [async_read payload_buffer (unat (payload_length header_msg))
                  (on_read_payload (header_msg\<lparr>checksum :=
                     checksum_from_network translator (inbound_checksum c2)\<rparr>))])) \<and>
   (bitcoin_assert checked (n3 = unat (payload_length header_msg)) \<and>
    bitcoin_assert checked (length (inbound_payload c3) = unat (payload_length header_msg)) \<and>
    verify_checksum translator header_msg (inbound_payload c3) \<longrightarrow>
      (\<exists>acts. handle_read_payload checked translator sink c3 header_msg no_error n3
                 = Inr (c3, acts)
         \<and> filter is_teardown acts = [] \<and> filter is_delivery acts = []
         \<and> filter is_read acts = [async_read header_buffer header_chunk_size on_read_header])) \<and>
   (handle_read_payload checked translator sink c4 header_msg ec4 n4 = Inr (c4', acts4) \<longrightarrow>
      filter is_delivery acts4 = [])"
proof (intro conjI impI)
  assume "handle_read_payload checked translator sink c4 header_msg ec4 n4 = Inr (c4', acts4)"
  then show "filter is_delivery acts4 = []"
    by (auto simp: handle_read_payload_undispatched [OF recognized_not_dispatched [OF assms]]
        read_header_def reset_timeout_def split: if_splits)
next
  assume "bitcoin_assert checked (n1 = header_chunk_size) \<and>
    bitcoin_assert checked (length (inbound_header c1) = header_chunk_size) \<and>
    header_from_network translator (inbound_header c1) = header_msg \<and>
    verify_header translator header_msg"
  then show "\<exists>c' acts. handle_read_header checked translator c1 no_error n1 = Inr (c', acts)
         \<and> filter is_teardown acts = [] \<and> filter is_delivery acts = []
         \<and> filter is_read acts
             = (if checksum_used translator header_msg
                then [async_read checksum_buffer header_checksum_size
                        (on_read_checksum header_msg)]
                else [async_read payload_buffer (unat (payload_length header_msg))
                        (on_read_payload header_msg)])"
    by (simp add: handle_read_header_cases header_logged_def reset_timeout_def)
next
  assume "bitcoin_assert checked (n2 = header_checksum_size) \<and>
    bitcoin_assert checked (length (inbound_checksum c2) = header_checksum_size)"
  then show "\<exists>c' acts. handle_read_checksum checked translator c2 header_msg no_error n2
                    = Inr (c', acts)
         \<and> filter is_teardown acts = [] \<and> filter is_delivery acts = []
         \<and> filter is_read acts
             = [async_read payload_buffer (unat (payload_length header_msg))
                  (on_read_payload (header_msg\<lparr>checksum :=
                     checksum_from_network translator (inbound_checksum c2)\<rparr>))]"
    by (simp add: handle_read_checksum_cases reset_timeout_def)
next
  assume "bitcoin_assert checked (n3 = unat (payload_length header_msg)) \<and>
    bitcoin_assert checked (length (inbound_payload c3) = unat (payload_length header_msg)) \<and>
    verify_checksum translator header_msg (inbound_payload c3)"
  then show "\<exists>acts. handle_read_payload checked translator sink c3 header_msg no_error n3
                 = Inr (c3, acts)
         \<and> filter is_teardown acts = [] \<and> filter is_delivery acts = []
         \<and> filter is_read acts = [async_read header_buffer header_chunk_size on_read_header]"
    by (simp add: handle_read_payload_undispatched [OF recognized_not_dispatched [OF assms]]
        read_header_def reset_timeout_def)
qed

theorem unrecognized_command_dropped_witness:
  "command (header_of ''ping'' 3) \<notin> set recognized_commands \<and>
   (\<exists>c' acts. handle_read_header True
        (scripted_dialect (header_of ''ping'' 3) True True True False)
        (channel_with 7 []) no_error 20 = Inr (c', acts)
      \<and> filter is_teardown acts = [] \<and> filter is_delivery acts = []
      \<and> filter is_read acts
          = [async_read checksum_buffer 4 (on_read_checksum (header_of ''ping'' 3))]) \<and>
   (\<exists>c' acts. handle_read_checksum True
        (scripted_dialect (header_of ''ping'' 3) True True True False)
        (channel_with 7 []) (header_of ''ping'' 3) no_error 4 = Inr (c', acts)
      \<and> filter is_teardown acts = [] \<and> filter is_delivery acts = []
      \<and> filter is_read acts
          = [async_read payload_buffer 3 (on_read_payload (header_of ''ping'' 3))]) \<and>
   (\<exists>acts. handle_read_payload True
        (scripted_dialect (header_of ''ping'' 3) True True True False) (\<lambda>h m. True)
        (channel_with 7 [1, 2, 3]) (header_of ''ping'' 3) no_error 3
        = Inr (channel_with 7 [1, 2, 3], acts)
      \<and> filter is_teardown acts = [] \<and> filter is_delivery acts = []
      \<and> filter is_read acts = [async_read header_buffer 20 on_read_header]) \<and>
   handle_read_payload True
        (scripted_dialect (header_of ''ping'' 3) True True True False) (\<lambda>h m. True)
        (channel_with 7 [1, 2, 3]) (header_of ''ping'' 3) (other_error 104) 0
        = Inr (channel_with 7 [1, 2, 3], [disconnect 7]) \<and>
   filter is_delivery ([disconnect 7] :: (nat, nat, nat) action list) = []"
proof -
  let ?d = "scripted_dialect (header_of ''ping'' 3) True True True False"
  have e: "handle_read_payload True ?d (\<lambda>h m. True)
        (channel_with 7 [1, 2, 3]) (header_of ''ping'' 3) (other_error 104) 0
        = Inr (channel_with 7 [1, 2, 3], [disconnect 7])"
    by (simp add: handle_read_payload_def problems_check_cases channel_with_simps)
  have u: "command (header_of ''ping'' 3) \<notin> set recognized_commands"
    by (simp add: header_of_simps recognized_commands_def)
  have a: "bitcoin_assert True ((20::nat) = header_chunk_size)"
    "bitcoin_assert True (length (inbound_header (channel_with 7 [])) = header_chunk_size)"
    "bitcoin_assert True ((4::nat) = header_checksum_size)"
    "bitcoin_assert True (length (inbound_checksum (channel_with 7 [])) = header_checksum_size)"
    "bitcoin_assert True ((3::nat) = unat (payload_length (header_of ''ping'' 3)))"
    "bitcoin_assert True (length (inbound_payload (channel_with 7 [1, 2, 3]))
       = unat (payload_length (header_of ''ping'' 3)))"
    by (simp_all add: bitcoin_assert_def channel_with_simps header_chunk_size_def
        header_checksum_size_def header_of_simps)
  from u a e unrecognized_command_dropped
         [OF u, where checked = True and translator = ?d and sink = "\<lambda>h m. True"
            and ?n1.0 = 20 and ?c1.0 = "channel_with 7 []"
            and ?n2.0 = 4 and ?c2.0 = "channel_with 7 []"
            and ?n3.0 = 3 and ?c3.0 = "channel_with 7 [1, 2, 3]"
            and ?c4.0 = "channel_with 7 [1, 2, 3]" and ?ec4.0 = "other_error 104"
            and ?n4.0 = 0 and ?c4' = "channel_with 7 [1, 2, 3]"
            and ?acts4.0 = "[disconnect 7]"]
  show ?thesis
    by (simp add: scripted_dialect_simps header_of_simps header_chunk_size_def
        header_checksum_size_def)
qed



section \<open>The payload buffer\<close>

text \<open>
  C7. \<^verbatim>\<open>read_payload\<close> leaves the payload buffer with exactly as many bytes as the
  header declares (zero included), and the read it issues is for that many bytes of the
  buffer as resized. So does the header handler for a valid header without checksum, and
  the checksum handler for the header it was bound to.
\<close>

theorem payload_buffer_sized_to_header:
  "length (inbound_payload (fst (read_payload c header_msg :: channel \<times> ('a, 'i, 'b) action list)))
     = unat (payload_length header_msg) \<and>
   snd (read_payload c header_msg :: channel \<times> ('a, 'i, 'b) action list)
     = [async_read payload_buffer (unat (payload_length header_msg))
          (on_read_payload header_msg)] \<and>
   (bitcoin_assert checked (n1 = header_chunk_size) \<and>
    bitcoin_assert checked (length (inbound_header c1) = header_chunk_size) \<and>
    verify_header translator (header_from_network translator (inbound_header c1)) \<longrightarrow>
      (\<exists>c' acts. handle_read_header checked translator c1 no_error n1 = Inr (c', acts)
         \<and> (if checksum_used translator (header_from_network translator (inbound_header c1))
             then filter is_read acts
                 = [async_read checksum_buffer header_checksum_size
                      (on_read_checksum (header_from_network translator (inbound_header c1)))]
             else length (inbound_payload c')
                 = unat (payload_length (header_from_network translator (inbound_header c1)))
               \<and> filter is_read acts
                 = [async_read payload_buffer
                      (unat (payload_length
                         (header_from_network translator (inbound_header c1))))
                      (on_read_payload
                         (header_from_network translator (inbound_header c1)))]))) \<and>
   (bitcoin_assert checked (n2 = header_checksum_size) \<and>
    bitcoin_assert checked (length (inbound_checksum c2) = header_checksum_size) \<longrightarrow>
      (\<exists>c' acts. handle_read_checksum checked translator c2 header_msg no_error n2
                    = Inr (c', acts)
         \<and> length (inbound_payload c') = unat (payload_length header_msg)
         \<and> filter is_read acts
             = [async_read payload_buffer (unat (payload_length header_msg))
                  (on_read_payload (header_msg\<lparr>checksum :=
                     checksum_from_network translator (inbound_checksum c2)\<rparr>))]))"
  by (simp add: read_payload_sized length_resize handle_read_header_cases
      handle_read_checksum_cases header_logged_def reset_timeout_def)

theorem payload_buffer_sized_to_header_witness:
  "length (inbound_payload (fst (read_payload (channel_with 7 [1, 2, 3]) (header_of ''verack'' 0)
      :: channel \<times> (nat, nat, nat) action list))) = 0 \<and>
   (\<exists>c' acts. handle_read_header True
        (scripted_dialect (header_of ''verack'' 0) True False True False)
        (channel_with 7 [1, 2, 3]) no_error 20 = Inr (c', acts)
      \<and> length (inbound_payload c') = 0
      \<and> filter is_read acts
          = [async_read payload_buffer 0 (on_read_payload (header_of ''verack'' 0))]) \<and>
   (\<exists>c' acts. handle_read_checksum True
        (scripted_dialect (header_of ''inv'' 3) True True True False)
        (channel_with 7 []) (header_of ''inv'' 3) no_error 4 = Inr (c', acts)
      \<and> length (inbound_payload c') = 3
      \<and> filter is_read acts
          = [async_read payload_buffer 3 (on_read_payload (header_of ''inv'' 3))])"
proof -
  let ?d = "scripted_dialect (header_of ''verack'' 0) True False True False"
  let ?e = "scripted_dialect (header_of ''inv'' 3) True True True False"
  have a: "bitcoin_assert True ((20::nat) = header_chunk_size)"
    "bitcoin_assert True (length (inbound_header (channel_with 7 [1, 2, 3])) = header_chunk_size)"
    "bitcoin_assert True ((4::nat) = header_checksum_size)"
    "bitcoin_assert True (length (inbound_checksum (channel_with 7 [])) = header_checksum_size)"
    by (simp_all add: bitcoin_assert_def channel_with_simps header_chunk_size_def
        header_checksum_size_def)
  from a payload_buffer_sized_to_header
         [where c = "channel_with 7 [1, 2, 3]" and header_msg = "header_of ''verack'' 0"
            and checked = True and translator = ?d and ?n1.0 = 20
            and ?c1.0 = "channel_with 7 [1, 2, 3]" and ?n2.0 = 4 and ?c2.0 = "channel_with 7 []",
          where ?'a = nat and ?'i = nat and ?'b = nat]
       payload_buffer_sized_to_header
         [where c = "channel_with 7 []" and header_msg = "header_of ''inv'' 3"
            and checked = True and translator = ?e and ?n1.0 = 20
            and ?c1.0 = "channel_with 7 []" and ?n2.0 = 4 and ?c2.0 = "channel_with 7 []",
          where ?'a = nat and ?'i = nat and ?'b = nat]
  show ?thesis
    by (simp add: scripted_dialect_simps header_of_simps)
qed

section \<open>Channel identities\<close>

text \<open>
  The constructor gives the channel the value of the counter and moves the counter on;
  the \<open>i\<close>-th channel made from a counter at 0 has the identity \<open>i mod 2 ^ handle_bits\<close>.
\<close>

lemma channel_pimpl_id:
  "channel_pimpl handle_bits translator gateway_ip now counter = (counter', c, acts)
   \<Longrightarrow> channel_id c = counter \<and> counter' = (counter + 1) mod 2 ^ handle_bits"
  by (auto simp: channel_pimpl_def Let_def)

lemma length_create_channels:
  "length (create_channels handle_bits translator gateway_ip now n counter) = n"
  by (induction n arbitrary: counter) (simp_all add: channel_pimpl_def Let_def)

lemma create_channels_nth:
  "i < n \<Longrightarrow>
     channel_id (create_channels handle_bits translator gateway_ip now n counter ! i)
       = (if i = 0 then counter else (counter + i) mod 2 ^ handle_bits)"
proof (induction n arbitrary: counter i)
  case 0
  then show ?case by simp
next
  case (Suc n)
  show ?case
  proof (cases i)
    case 0
    then show ?thesis by (simp add: channel_pimpl_def Let_def)
  next
    case (Suc j)
    with Suc.prems have "j < n" by simp
    from Suc.IH [OF this, of "(counter + 1) mod 2 ^ handle_bits"] Suc
    show ?thesis
      by (simp add: channel_pimpl_def Let_def mod_add_left_eq mod_Suc_eq)
  qed
qed

lemma channel_ids_distinct_in_window:
  assumes "i < j" and "j < n" and "j - i < 2 ^ handle_bits"
  shows "channel_id (create_channels handle_bits translator gateway_ip now n
            chan_id_counter_init ! i)
       \<noteq> channel_id (create_channels handle_bits translator gateway_ip now n
            chan_id_counter_init ! j)"
proof
  assume e: "channel_id (create_channels handle_bits translator gateway_ip now n
            chan_id_counter_init ! i)
       = channel_id (create_channels handle_bits translator gateway_ip now n
            chan_id_counter_init ! j)"
  from assms have "i < n" by simp
  with e assms have "i mod 2 ^ handle_bits = j mod 2 ^ handle_bits"
    by (simp add: create_channels_nth chan_id_counter_init_def split: if_splits)
  then have "(j - i) mod 2 ^ handle_bits = 0"
    using assms(1) by (metis less_imp_le_nat mod_eq_dvd_iff_nat dvd_imp_mod_0)
  with assms show False by simp
qed

text \<open>No handler changes the identity.\<close>

lemma handlers_keep_channel_id:
  "handle_read_header checked translator c ec n = Inr (c', acts) \<Longrightarrow> channel_id c' = channel_id c"
  "handle_read_checksum checked translator c header_msg ec n = Inr (c', acts)
     \<Longrightarrow> channel_id c' = channel_id c"
  "handle_read_payload checked translator sink c header_msg ec n = Inr (c', acts)
     \<Longrightarrow> channel_id c' = channel_id c"
  using handle_read_payload_effects [of checked translator sink c header_msg ec n c' acts]
  by (auto simp: handle_read_header_cases handle_read_checksum_cases split: if_splits)

text \<open>
  C8. The identity is not unique for the life of the process: after \<open>2 ^ handle_bits\<close>
  constructions the counter is back at its first value, and the next channel gets the
  identity of the first one.
\<close>

theorem channel_id_reused_after_wrap:
  "channel_id (create_channels handle_bits translator gateway_ip now (2 ^ handle_bits + 1)
       chan_id_counter_init ! (2 ^ handle_bits))
     = channel_id (create_channels handle_bits translator gateway_ip now (2 ^ handle_bits + 1)
       chan_id_counter_init ! 0)"
  by (simp add: create_channels_nth chan_id_counter_init_def del: create_channels.simps)

section \<open>The handshake\<close>

text \<open>
  C9, as amended. The version message that the constructor sends has constant values for
  the protocol version (31900), the services (1), the nonce (\<open>0xdeadbeef\<close>), the peer's
  address (\<open>::ffff:10.0.0.1\<close>, port 8333), the port of its own address (8333), the
  sub-version (empty) and the start height (0); only the address of \<^verbatim>\<open>addr_me\<close>, from
  the gateway, and the timestamp, from the clock, come from outside.
\<close>

theorem version_message_hardcoded:
  "create_version_message gateway_ip now =
     \<lparr>version = 31900, version_services = 1, timestamp = now,
      addr_me = \<lparr>services = 1, ip_addr = gateway_ip, port = 8333\<rparr>,
      addr_you = \<lparr>services = 1,
                  ip_addr = [0, 0, 0, 0, 0, 0, 0, 0, 0, 0, 255, 255, 10, 0, 0, 1],
                  port = 8333\<rparr>,
      nonce = 3735928559, sub_version_num = [], start_height = 0\<rparr> \<and>
   snd (snd (channel_pimpl handle_bits translator gateway_ip now counter))
     = [timer_create, async_read header_buffer 20 on_read_header,
        timer_cancel, timer_expires_from_now 5400, timer_async_wait on_timeout,
        async_write (to_network translator
                       (version_msg (create_version_message gateway_ip now))) on_send]"
  by (simp add: create_version_message_def channel_pimpl_def Let_def read_header_def
      reset_timeout_def send_def generic_send_def header_chunk_size_def disconnect_timeout_def)

text \<open>
  C9 as stated fails: two gateways with different addresses, at different times, send
  the same nonce, protocol version, peer address and ports.
\<close>

theorem version_message_counterexample:
  "([0, 0, 0, 0, 0, 0, 0, 0, 0, 0, 255, 255, 192, 168, 1, 1] :: byte list)
     \<noteq> [0, 0, 0, 0, 0, 0, 0, 0, 0, 0, 255, 255, 172, 16, 0, 9] \<and>
   nonce (create_version_message [0, 0, 0, 0, 0, 0, 0, 0, 0, 0, 255, 255, 192, 168, 1, 1] 1)
     = nonce (create_version_message [0, 0, 0, 0, 0, 0, 0, 0, 0, 0, 255, 255, 172, 16, 0, 9] 2) \<and>
   version (create_version_message [0, 0, 0, 0, 0, 0, 0, 0, 0, 0, 255, 255, 192, 168, 1, 1] 1)
     = version (create_version_message [0, 0, 0, 0, 0, 0, 0, 0, 0, 0, 255, 255, 172, 16, 0, 9] 2) \<and>
   addr_you (create_version_message [0, 0, 0, 0, 0, 0, 0, 0, 0, 0, 255, 255, 192, 168, 1, 1] 1)
     = addr_you (create_version_message [0, 0, 0, 0, 0, 0, 0, 0, 0, 0, 255, 255, 172, 16, 0, 9] 2) \<and>
   port (addr_me
      (create_version_message [0, 0, 0, 0, 0, 0, 0, 0, 0, 0, 255, 255, 192, 168, 1, 1] 1))
     = port (addr_me
      (create_version_message [0, 0, 0, 0, 0, 0, 0, 0, 0, 0, 255, 255, 172, 16, 0, 9] 2))"
  by (simp add: create_version_message_def)

end
